theory Spec2Isabelle
  imports Complex_Main "HOL-Library.Multiset"
begin

section \<open>JavaScript values\<close>

text \<open>
  The handlers of \<^verbatim>\<open>src/index.js\<close> only ever test request values for truthiness
  (\<^verbatim>\<open>!name\<close>) and for loose equality with null (\<^verbatim>\<open>price == null\<close>), and copy them
  around. A JavaScript number is a double: finite, an infinity, or NaN.
\<close>

datatype jsnum = Finite rat | Infinity bool | NaN

datatype jsval =
    JUndefined
  | JNull
  | JBool bool
  | JNum jsnum
  | JStr string
  | JDate nat
  | JArr "jsval list"
  | JObj "(string \<times> jsval) list"

text \<open>
  \<^verbatim>\<open>!v\<close> is true exactly when \<open>v\<close> is falsy: undefined, null, false, zero, NaN or the
  empty string. Every object (dates and arrays included) is truthy.
\<close>

fun truthy :: "jsval \<Rightarrow> bool" where
  "truthy JUndefined = False"
| "truthy JNull = False"
| "truthy (JBool b) = b"
| "truthy (JNum (Finite q)) = (q \<noteq> 0)"
| "truthy (JNum (Infinity s)) = True"
| "truthy (JNum NaN) = False"
| "truthy (JStr s) = (s \<noteq> [])"
| "truthy (JDate t) = True"
| "truthy (JArr vs) = True"
| "truthy (JObj kvs) = True"

text \<open>\<^verbatim>\<open>v == null\<close> holds for null and undefined and for nothing else.\<close>

fun eq_null :: "jsval \<Rightarrow> bool" where
  "eq_null JUndefined = True"
| "eq_null JNull = True"
| "eq_null v = False"

text \<open>
  \<^verbatim>\<open>req.body\<close> is the object the JSON body parser produced, given by its own properties.
  Destructuring \<^verbatim>\<open>const { name } = req.body\<close> reads a property; an absent one
  reads as undefined (so a request without a body, which the parser turns into the
  empty object, is the empty list).
\<close>

type_synonym jsobject = "(string \<times> jsval) list"

definition getprop :: "jsobject \<Rightarrow> string \<Rightarrow> jsval" where
  "getprop obj k = (case map_of obj k of None \<Rightarrow> JUndefined | Some v \<Rightarrow> v)"

section \<open>The store\<close>

text \<open>
  A row of table \<^verbatim>\<open>Menu\<close>, with the columns the SQL text of the handlers names.
  \<^verbatim>\<open>CreatedAt\<close> is the commit timestamp the store assigns.
\<close>

record row =
  MenuId :: string
  Name :: jsval
  Description :: jsval
  Price :: jsval
  Available :: jsval
  CreatedAt :: nat

text \<open>The three DML statements and the two queries the handlers send, with their parameters.\<close>

datatype statement =
    Insert string jsval jsval jsval jsval
  | Update string jsval jsval jsval jsval
  | Delete string

datatype query = SelectAll | SelectById string

datatype call = RunTransaction statement | Run query

text \<open>
  The database handle: the rows of \<^verbatim>\<open>Menu\<close>, and the calls made on the handle so far
  (a history, so that "no store access" can be stated).
\<close>

record database =
  rows :: "row list"
  calls :: "call list"

text \<open>
  Modelled from the spec: the store is an external collaborator (the Spanner client
  library); what it does with a statement is the meaning of the SQL text in the source.
  \<^verbatim>\<open>INSERT\<close> adds one row stamped with the commit timestamp, \<^verbatim>\<open>UPDATE ... WHERE MenuId = @id\<close>
  sets the four named columns of the matching rows, \<^verbatim>\<open>DELETE ... WHERE MenuId = @id\<close>
  removes the matching rows.
\<close>

fun runUpdate :: "nat \<Rightarrow> statement \<Rightarrow> row list \<Rightarrow> row list" where
  "runUpdate ts (Insert menuId name description price available) rs =
     rs @ [\<lparr>MenuId = menuId, Name = name, Description = description, Price = price,
            Available = available, CreatedAt = ts\<rparr>]"
| "runUpdate ts (Update ident name description price available) rs =
     map (\<lambda>r. if MenuId r = ident
              then r\<lparr>Name := name, Description := description, Price := price,
                     Available := available\<rparr>
              else r) rs"
| "runUpdate ts (Delete ident) rs = filter (\<lambda>r. MenuId r \<noteq> ident) rs"

text \<open>
  Modelled from the spec: what the store does on one request is not decided by the
  handler, so it is an input. A transaction either commits at a timestamp, or one of
  its two awaited steps throws an error with a message; an aborted transaction leaves
  no visible effect. A read either returns its rows or throws. The table's schema is
  not part of the source: a parameter value that a column's type refuses is one of the
  reasons for a transaction to throw.
\<close>

datatype txn_fate = Commits nat | RunUpdateThrows string | CommitThrows string

datatype read_fate = ReadReturns | ReadThrows string

text \<open>
  \<^verbatim>\<open>database.runTransactionAsync(async (transaction) => { await transaction.runUpdate(query);
  await transaction.commit(); })\<close>: \<open>Inl\<close> is the message of the error thrown.
\<close>

definition runTransactionAsync ::
  "txn_fate \<Rightarrow> statement \<Rightarrow> database \<Rightarrow> (string + unit) \<times> database" where
  "runTransactionAsync fate q db =
     (let db1 = db\<lparr>calls := calls db @ [RunTransaction q]\<rparr> in
      case fate of
        RunUpdateThrows msg \<Rightarrow> (Inl msg, db1)
      | CommitThrows msg \<Rightarrow> (Inl msg, db1)
      | Commits ts \<Rightarrow> (Inr (), db1\<lparr>rows := runUpdate ts q (rows db1)\<rparr>))"

text \<open>
  Modelled from the spec: the rows a query returns. \<^verbatim>\<open>ORDER BY CreatedAt DESC\<close> is a sort
  by descending timestamp (SQL leaves the order of equal timestamps open; this model
  fixes one).
\<close>

fun select :: "query \<Rightarrow> row list \<Rightarrow> row list" where
  "select SelectAll rs = rev (sort_key CreatedAt rs)"
| "select (SelectById ident) rs = filter (\<lambda>r. MenuId r = ident) rs"

text \<open>\<^verbatim>\<open>const [rows] = await database.run({ sql, params })\<close>.\<close>

definition run :: "read_fate \<Rightarrow> query \<Rightarrow> database \<Rightarrow> (string + row list) \<times> database" where
  "run fate q db =
     (let db1 = db\<lparr>calls := calls db @ [Run q]\<rparr> in
      case fate of
        ReadThrows msg \<Rightarrow> (Inl msg, db1)
      | ReadReturns \<Rightarrow> (Inr (select q (rows db1)), db1))"

section \<open>The handlers\<close>

text \<open>
  A response: the status and the JSON body. Where the list and the update handler
  answer with rows read from the store, the body is the value they hand to
  \<^verbatim>\<open>res.json\<close>, built by \<open>menu_item\<close>.
\<close>

record response =
  status :: nat
  json :: jsval

text \<open>The test of lines 30 and 94, the same in both handlers.\<close>

definition invalid_input :: "jsval \<Rightarrow> jsval \<Rightarrow> jsval \<Rightarrow> jsval \<Rightarrow> bool" where
  "invalid_input name description price available =
     (\<not> truthy name \<or> \<not> truthy description \<or> eq_null price \<or> eq_null available)"

text \<open>
  The object both the list and the update handler build from \<^verbatim>\<open>row.toJSON()\<close>:
  the store's column names on the right, the external names on the left. The conversion
  \<^verbatim>\<open>toJSON\<close> of the client library is taken to succeed on every row; the timestamp
  column comes back as a date object.
\<close>

definition menu_item :: "row \<Rightarrow> jsval" where
  "menu_item item =
     JObj [(''menuId'', JStr (MenuId item)),
           (''name'', Name item),
           (''description'', Description item),
           (''price'', Price item),
           (''available'', Available item),
           (''createdAt'', JDate (CreatedAt item))]"

text \<open>
  \<^verbatim>\<open>res.json(v)\<close> sends the text \<^verbatim>\<open>JSON.stringify(v)\<close>; \<open>stringify\<close> is the value a
  client reads from that text. A number that is not finite is written as null; a
  property whose value is undefined is left out, and an undefined array element is
  written as null. A date is written as the string naming its instant, for which the
  date itself stands here, as in \<open>menu_item\<close>. Strings, booleans, null and finite
  numbers are written as they are, so the error bodies and the success flag of the
  handlers are sent exactly as given.
\<close>

fun stringify :: "jsval \<Rightarrow> jsval"
  and stringify_elements :: "jsval list \<Rightarrow> jsval list"
  and stringify_properties :: "(string \<times> jsval) list \<Rightarrow> (string \<times> jsval) list" where
  "stringify JUndefined = JUndefined"
| "stringify JNull = JNull"
| "stringify (JBool b) = JBool b"
| "stringify (JNum (Finite q)) = JNum (Finite q)"
| "stringify (JNum (Infinity s)) = JNull"
| "stringify (JNum NaN) = JNull"
| "stringify (JStr s) = JStr s"
| "stringify (JDate t) = JDate t"
| "stringify (JArr vs) = JArr (stringify_elements vs)"
| "stringify (JObj kvs) = JObj (stringify_properties kvs)"
| "stringify_elements [] = []"
| "stringify_elements (v # vs) =
     (if v = JUndefined then JNull else stringify v) # stringify_elements vs"
| "stringify_properties [] = []"
| "stringify_properties (kv # kvs) =
     (if snd kv = JUndefined then stringify_properties kvs
      else (fst kv, stringify (snd kv)) # stringify_properties kvs)"

text \<open>
  The values that JSON text carries unchanged: null, booleans, finite numbers, strings,
  and arrays and objects built from these.
\<close>

fun json_exact :: "jsval \<Rightarrow> bool"
  and json_exact_elements :: "jsval list \<Rightarrow> bool"
  and json_exact_properties :: "(string \<times> jsval) list \<Rightarrow> bool" where
  "json_exact JUndefined = False"
| "json_exact JNull = True"
| "json_exact (JBool b) = True"
| "json_exact (JNum (Finite q)) = True"
| "json_exact (JNum (Infinity s)) = False"
| "json_exact (JNum NaN) = False"
| "json_exact (JStr s) = True"
| "json_exact (JDate t) = False"
| "json_exact (JArr vs) = json_exact_elements vs"
| "json_exact (JObj kvs) = json_exact_properties kvs"
| "json_exact_elements [] = True"
| "json_exact_elements (v # vs) = (json_exact v \<and> json_exact_elements vs)"
| "json_exact_properties [] = True"
| "json_exact_properties (kv # kvs) = (json_exact (snd kv) \<and> json_exact_properties kvs)"

text \<open>
  \<^verbatim>\<open>app.post('/menu')\<close>. \<open>uuid\<close> is what \<^verbatim>\<open>uuidv4()\<close> returns and \<open>now\<close> what
  \<^verbatim>\<open>new Date().toISOString()\<close> returns when the response is built. The created item
  holds values taken from the request, so its body is given as \<^verbatim>\<open>res.json\<close> sends it.
\<close>

definition post_menu ::
  "string \<Rightarrow> string \<Rightarrow> txn_fate \<Rightarrow> jsobject \<Rightarrow> database \<Rightarrow> response \<times> database" where
  "post_menu uuid now fate body db =
     (let name = getprop body ''name'';
          description = getprop body ''description'';
          price = getprop body ''price'';
          available = getprop body ''available'';
          menuId = uuid
      in if invalid_input name description price available
         then (\<lparr>status = 400, json = JObj [(''error'', JStr ''Invalid input data'')]\<rparr>, db)
         else (case runTransactionAsync fate (Insert menuId name description price available) db of
                 (Inl message, db') \<Rightarrow>
                   (\<lparr>status = 500,
                     json = JObj [(''error'', JStr ''Failed to create menu item''),
                                  (''details'', JStr message)]\<rparr>, db')
               | (Inr u, db') \<Rightarrow>
                   (\<lparr>status = 201,
                     json = stringify
                              (JObj [(''menuId'', JStr menuId),
                                     (''name'', name),
                                     (''description'', description),
                                     (''price'', price),
                                     (''available'', available),
                                     (''createdAt'', JStr now)])\<rparr>, db')))"

text \<open>\<^verbatim>\<open>app.get('/menu')\<close>; \<^verbatim>\<open>res.json(data)\<close> answers with status 200.\<close>

definition get_menu :: "read_fate \<Rightarrow> database \<Rightarrow> response \<times> database" where
  "get_menu fate db =
     (case run fate SelectAll db of
        (Inl message, db') \<Rightarrow>
          (\<lparr>status = 500,
            json = JObj [(''error'', JStr ''Failed to fetch menu items''),
                         (''details'', JStr message)]\<rparr>, db')
      | (Inr rs, db') \<Rightarrow> (\<lparr>status = 200, json = JArr (map menu_item rs)\<rparr>, db'))"

text \<open>\<^verbatim>\<open>app.put('/menu/:id')\<close>; \<open>ident\<close> is \<^verbatim>\<open>req.params.id\<close>.\<close>

definition put_menu ::
  "txn_fate \<Rightarrow> read_fate \<Rightarrow> string \<Rightarrow> jsobject \<Rightarrow> database \<Rightarrow> response \<times> database" where
  "put_menu fate rfate ident body db =
     (let name = getprop body ''name'';
          description = getprop body ''description'';
          price = getprop body ''price'';
          available = getprop body ''available''
      in if invalid_input name description price available
         then (\<lparr>status = 400, json = JObj [(''error'', JStr ''Invalid input data'')]\<rparr>, db)
         else (case runTransactionAsync fate (Update ident name description price available) db of
                 (Inl message, db') \<Rightarrow>
                   (\<lparr>status = 500,
                     json = JObj [(''error'', JStr ''Failed to update menu item''),
                                  (''details'', JStr message)]\<rparr>, db')
               | (Inr u, db') \<Rightarrow>
                   (case run rfate (SelectById ident) db' of
                      (Inl message, db'') \<Rightarrow>
                        (\<lparr>status = 500,
                          json = JObj [(''error'', JStr ''Failed to update menu item''),
                                       (''details'', JStr message)]\<rparr>, db'')
                    | (Inr [], db'') \<Rightarrow>
                        (\<lparr>status = 404,
                          json = JObj [(''error'', JStr ''Menu item not found'')]\<rparr>, db'')
                    | (Inr (item # rest), db'') \<Rightarrow>
                        (\<lparr>status = 200, json = menu_item item\<rparr>, db''))))"

text \<open>\<^verbatim>\<open>app.delete('/menu/:id')\<close>.\<close>

definition delete_menu :: "txn_fate \<Rightarrow> string \<Rightarrow> database \<Rightarrow> response \<times> database" where
  "delete_menu fate ident db =
     (case runTransactionAsync fate (Delete ident) db of
        (Inl message, db') \<Rightarrow>
          (\<lparr>status = 500,
            json = JObj [(''error'', JStr ''Failed to delete menu item''),
                         (''details'', JStr message)]\<rparr>, db')
      | (Inr u, db') \<Rightarrow>
          (\<lparr>status = 200, json = JObj [(''success'', JBool True)]\<rparr>, db'))"

section \<open>Validation\<close>

lemma invalid_input_null:
  "eq_null name \<or> eq_null description \<or> eq_null price \<or> eq_null available
   \<Longrightarrow> invalid_input name description price available"
  by (cases name; cases description) (auto simp: invalid_input_def)

text \<open>
  C1. A POST /menu or PUT /menu/:id whose body has one of name, description, price,
  available missing or null is answered with status 400 and the validation error, and
  the database handle is returned as it was: its rows are the same and no call was
  made on it (no transaction, no read).
\<close>

theorem missing_field_rejected_before_store:
  assumes "eq_null (getprop body ''name'') \<or> eq_null (getprop body ''description'')
           \<or> eq_null (getprop body ''price'') \<or> eq_null (getprop body ''available'')"
  shows "post_menu uuid now fate body db =
           (\<lparr>status = 400, json = JObj [(''error'', JStr ''Invalid input data'')]\<rparr>, db)
         \<and> put_menu fate rfate ident body db =
           (\<lparr>status = 400, json = JObj [(''error'', JStr ''Invalid input data'')]\<rparr>, db)"
  using invalid_input_null [OF assms] by (simp add: post_menu_def put_menu_def)

theorem missing_field_rejected_before_store_witness:
  "post_menu ''u1'' ''2024-01-01T00:00:00.000Z'' (Commits 7)
     [(''name'', JStr ''Latte''), (''description'', JStr ''Hot milk coffee''),
      (''price'', JNull), (''available'', JBool True)]
     \<lparr>rows = [], calls = []\<rparr>
   = (\<lparr>status = 400, json = JObj [(''error'', JStr ''Invalid input data'')]\<rparr>,
      \<lparr>rows = [], calls = []\<rparr>)
   \<and> put_menu (Commits 7) ReadReturns ''u0''
     [(''name'', JStr ''Latte''), (''description'', JStr ''Hot milk coffee''),
      (''price'', JNull), (''available'', JBool True)]
     \<lparr>rows = [], calls = []\<rparr>
   = (\<lparr>status = 400, json = JObj [(''error'', JStr ''Invalid input data'')]\<rparr>,
      \<lparr>rows = [], calls = []\<rparr>)"
  using missing_field_rejected_before_store
    [of "[(''name'', JStr ''Latte''), (''description'', JStr ''Hot milk coffee''),
          (''price'', JNull), (''available'', JBool True)]"
        "''u1''" "''2024-01-01T00:00:00.000Z''" "Commits 7" "\<lparr>rows = [], calls = []\<rparr>"
        ReadReturns "''u0''"]
  by (simp add: getprop_def)

section \<open>Update followed by the point read\<close>


lemma select_by_id_after_update:
  "select (SelectById ident) (runUpdate ts (Update ident n d p a) rs) =
     map (\<lambda>r. r\<lparr>Name := n, Description := d, Price := p, Available := a\<rparr>)
       (select (SelectById ident) rs)"
  by (induction rs) auto

lemma put_menu_committed:
  assumes "\<not> invalid_input (getprop body ''name'') (getprop body ''description'')
             (getprop body ''price'') (getprop body ''available'')"
  shows "put_menu (Commits ts) ReadReturns ident body db =
     ((case select (SelectById ident)
              (runUpdate ts (Update ident (getprop body ''name'') (getprop body ''description'')
                 (getprop body ''price'') (getprop body ''available'')) (rows db)) of
         [] \<Rightarrow> \<lparr>status = 404, json = JObj [(''error'', JStr ''Menu item not found'')]\<rparr>
       | item # rest \<Rightarrow> \<lparr>status = 200, json = menu_item item\<rparr>),
      \<lparr>rows = runUpdate ts (Update ident (getprop body ''name'') (getprop body ''description'')
                 (getprop body ''price'') (getprop body ''available'')) (rows db),
       calls = calls db @ [RunTransaction (Update ident (getprop body ''name'')
                 (getprop body ''description'') (getprop body ''price'')
                 (getprop body ''available'')), Run (SelectById ident)]\<rparr>)"
  using assms
  by (simp add: put_menu_def runTransactionAsync_def run_def Let_def split: list.splits)

text \<open>
  C2. A PUT /menu/:id with a valid body whose update transaction commits makes exactly
  two calls on the store, the transaction and then a separate read by id. If that read
  finds no row the answer is 404 with only an error message in the body; if it finds a
  row the answer is 200 with that row's columns under the external names. So an id that
  no row carries gives 404, and an id that a row carries gives 200 with the submitted
  values and the row's own creation time.
\<close>

theorem update_then_point_read:
  assumes "\<not> invalid_input (getprop body ''name'') (getprop body ''description'')
             (getprop body ''price'') (getprop body ''available'')"
  shows "calls (snd (put_menu (Commits ts) ReadReturns ident body db)) =
           calls db @ [RunTransaction (Update ident (getprop body ''name'')
                         (getprop body ''description'') (getprop body ''price'')
                         (getprop body ''available'')),
                       Run (SelectById ident)]
         \<and> (select (SelectById ident)
               (rows (snd (put_menu (Commits ts) ReadReturns ident body db))) = []
             \<longrightarrow> fst (put_menu (Commits ts) ReadReturns ident body db) =
                   \<lparr>status = 404, json = JObj [(''error'', JStr ''Menu item not found'')]\<rparr>)
         \<and> (\<forall>item rest.
               select (SelectById ident)
                 (rows (snd (put_menu (Commits ts) ReadReturns ident body db))) = item # rest
               \<longrightarrow> fst (put_menu (Commits ts) ReadReturns ident body db) =
                     \<lparr>status = 200, json = menu_item item\<rparr>)
         \<and> ((\<forall>r \<in> set (rows db). MenuId r \<noteq> ident)
             \<longrightarrow> fst (put_menu (Commits ts) ReadReturns ident body db) =
                   \<lparr>status = 404, json = JObj [(''error'', JStr ''Menu item not found'')]\<rparr>)
         \<and> (\<forall>r rest.
               select (SelectById ident) (rows db) = r # rest
               \<longrightarrow> fst (put_menu (Commits ts) ReadReturns ident body db) =
                     \<lparr>status = 200,
                      json = JObj [(''menuId'', JStr ident),
                                   (''name'', getprop body ''name''),
                                   (''description'', getprop body ''description''),
                                   (''price'', getprop body ''price''),
                                   (''available'', getprop body ''available''),
                                   (''createdAt'', JDate (CreatedAt r))]\<rparr>)"
proof -
  let ?q = "Update ident (getprop body ''name'') (getprop body ''description'')
              (getprop body ''price'') (getprop body ''available'')"
  note eq = put_menu_committed [OF assms, of ts ident db]
  have c: "calls (snd (put_menu (Commits ts) ReadReturns ident body db)) =
             calls db @ [RunTransaction ?q, Run (SelectById ident)]"
    by (simp add: eq)
  have r: "rows (snd (put_menu (Commits ts) ReadReturns ident body db)) =
             runUpdate ts ?q (rows db)"
    by (simp add: eq)
  have none: "select (SelectById ident) (runUpdate ts ?q (rows db)) = []
      \<Longrightarrow> fst (put_menu (Commits ts) ReadReturns ident body db) =
           \<lparr>status = 404, json = JObj [(''error'', JStr ''Menu item not found'')]\<rparr>"
    by (simp add: eq)
  have some: "select (SelectById ident) (runUpdate ts ?q (rows db)) = item # rest
      \<Longrightarrow> fst (put_menu (Commits ts) ReadReturns ident body db) =
           \<lparr>status = 200, json = menu_item item\<rparr>" for item rest
    by (simp add: eq)
  have absent: "\<forall>r \<in> set (rows db). MenuId r \<noteq> ident
      \<Longrightarrow> select (SelectById ident) (runUpdate ts ?q (rows db)) = []"
    by (simp add: select_by_id_after_update filter_empty_conv)
  have present: "fst (put_menu (Commits ts) ReadReturns ident body db) =
                     \<lparr>status = 200,
                      json = JObj [(''menuId'', JStr ident),
                                   (''name'', getprop body ''name''),
                                   (''description'', getprop body ''description''),
                                   (''price'', getprop body ''price''),
                                   (''available'', getprop body ''available''),
                                   (''createdAt'', JDate (CreatedAt r))]\<rparr>"
    if sel: "select (SelectById ident) (rows db) = r # rest" for r rest
  proof -
    have "r \<in> set (filter (\<lambda>x. MenuId x = ident) (rows db))"
      using sel by simp
    then have m: "MenuId r = ident" by simp
    have "select (SelectById ident) (runUpdate ts ?q (rows db)) =
            r\<lparr>Name := getprop body ''name'', Description := getprop body ''description'',
              Price := getprop body ''price'', Available := getprop body ''available''\<rparr>
            # map (\<lambda>r. r\<lparr>Name := getprop body ''name'',
                          Description := getprop body ''description'',
                          Price := getprop body ''price'',
                          Available := getprop body ''available''\<rparr>) rest"
      by (simp only: select_by_id_after_update sel list.map)
    from some [OF this] m show ?thesis
      by (simp add: menu_item_def)
  qed
  show ?thesis
    using c none some absent present unfolding r by blast
qed

theorem update_then_point_read_witness:
  "fst (put_menu (Commits 9) ReadReturns ''zz''
       [(''name'', JStr ''Latte''), (''description'', JStr ''Hot milk coffee''),
        (''price'', JNum (Finite 480)), (''available'', JBool False)]
       \<lparr>rows = [\<lparr>MenuId = ''a'', Name = JStr ''Latte'', Description = JStr ''Hot milk coffee'',
                 Price = JNum (Finite 450), Available = JBool True, CreatedAt = 1\<rparr>],
        calls = []\<rparr>) =
     \<lparr>status = 404, json = JObj [(''error'', JStr ''Menu item not found'')]\<rparr>
   \<and> put_menu (Commits 9) ReadReturns ''a''
       [(''name'', JStr ''Latte''), (''description'', JStr ''Hot milk coffee''),
        (''price'', JNum (Finite 480)), (''available'', JBool False)]
       \<lparr>rows = [\<lparr>MenuId = ''a'', Name = JStr ''Latte'', Description = JStr ''Hot milk coffee'',
                 Price = JNum (Finite 450), Available = JBool True, CreatedAt = 1\<rparr>],
        calls = []\<rparr> =
     (\<lparr>status = 200,
       json = JObj [(''menuId'', JStr ''a''), (''name'', JStr ''Latte''),
                    (''description'', JStr ''Hot milk coffee''),
                    (''price'', JNum (Finite 480)), (''available'', JBool False),
                    (''createdAt'', JDate 1)]\<rparr>,
      \<lparr>rows = [\<lparr>MenuId = ''a'', Name = JStr ''Latte'', Description = JStr ''Hot milk coffee'',
                Price = JNum (Finite 480), Available = JBool False, CreatedAt = 1\<rparr>],
       calls = [RunTransaction (Update ''a'' (JStr ''Latte'') (JStr ''Hot milk coffee'')
                  (JNum (Finite 480)) (JBool False)),
                Run (SelectById ''a'')]\<rparr>)"
  using update_then_point_read
    [where body = "[(''name'', JStr ''Latte''), (''description'', JStr ''Hot milk coffee''),
          (''price'', JNum (Finite 480)), (''available'', JBool False)]"
       and ts = 9 and ident = "''zz''"
       and db = "\<lparr>rows = [\<lparr>MenuId = ''a'', Name = JStr ''Latte'',
                 Description = JStr ''Hot milk coffee'',
                 Price = JNum (Finite 450), Available = JBool True, CreatedAt = 1\<rparr>],
        calls = []\<rparr>"]
    update_then_point_read
    [where body = "[(''name'', JStr ''Latte''), (''description'', JStr ''Hot milk coffee''),
          (''price'', JNum (Finite 480)), (''available'', JBool False)]"
       and ts = 9 and ident = "''a''"
       and db = "\<lparr>rows = [\<lparr>MenuId = ''a'', Name = JStr ''Latte'',
                 Description = JStr ''Hot milk coffee'',
                 Price = JNum (Finite 450), Available = JBool True, CreatedAt = 1\<rparr>],
        calls = []\<rparr>"]
  by (simp add: getprop_def invalid_input_def put_menu_def runTransactionAsync_def run_def
        menu_item_def Let_def)

section \<open>Delete\<close>

lemma delete_menu_committed:
  "delete_menu (Commits ts) ident db =
     (\<lparr>status = 200, json = JObj [(''success'', JBool True)]\<rparr>,
      \<lparr>rows = filter (\<lambda>r. MenuId r \<noteq> ident) (rows db),
       calls = calls db @ [RunTransaction (Delete ident)]\<rparr>)"
  by (simp add: delete_menu_def runTransactionAsync_def)

text \<open>
  C3. When its transaction commits, DELETE /menu/:id answers 200 with
  \<^verbatim>\<open>{success: true}\<close> for every id, having made one call on the store, the delete
  transaction itself (no read). Deleting the same id a second time gives 200 again and
  leaves the rows as the first delete left them; deleting an id that no row carries
  leaves the rows as they were.
\<close>

theorem delete_idempotent:
  "delete_menu (Commits ts) ident db =
     (\<lparr>status = 200, json = JObj [(''success'', JBool True)]\<rparr>,
      \<lparr>rows = filter (\<lambda>r. MenuId r \<noteq> ident) (rows db),
       calls = calls db @ [RunTransaction (Delete ident)]\<rparr>)
   \<and> rows (snd (delete_menu (Commits ts') ident (snd (delete_menu (Commits ts) ident db)))) =
       rows (snd (delete_menu (Commits ts) ident db))
   \<and> fst (delete_menu (Commits ts') ident (snd (delete_menu (Commits ts) ident db))) =
       \<lparr>status = 200, json = JObj [(''success'', JBool True)]\<rparr>
   \<and> ((\<forall>r \<in> set (rows db). MenuId r \<noteq> ident)
       \<longrightarrow> rows (snd (delete_menu (Commits ts) ident db)) = rows db)"
proof -
  have once: "rows (snd (delete_menu (Commits t) ident d)) =
                filter (\<lambda>r. MenuId r \<noteq> ident) (rows d)" for t d
    by (simp add: delete_menu_committed)
  have twice: "rows (snd (delete_menu (Commits ts') ident (snd (delete_menu (Commits ts) ident db)))) =
                 rows (snd (delete_menu (Commits ts) ident db))"
    by (simp add: once)
  have ok: "fst (delete_menu (Commits t) ident d) =
              \<lparr>status = 200, json = JObj [(''success'', JBool True)]\<rparr>" for t d
    by (simp add: delete_menu_committed)
  have absent: "\<forall>r \<in> set (rows db). MenuId r \<noteq> ident
                 \<Longrightarrow> rows (snd (delete_menu (Commits ts) ident db)) = rows db"
    by (simp add: once)
  show ?thesis
    using delete_menu_committed [of ts ident db] twice ok absent by blast
qed

theorem delete_idempotent_witness:
  "delete_menu (Commits 5) ''nope''
     \<lparr>rows = [\<lparr>MenuId = ''u1'', Name = JStr ''Latte'', Description = JStr ''Hot'',
               Price = JNum (Finite 450), Available = JBool True, CreatedAt = 3\<rparr>],
      calls = []\<rparr> =
     (\<lparr>status = 200, json = JObj [(''success'', JBool True)]\<rparr>,
      \<lparr>rows = [\<lparr>MenuId = ''u1'', Name = JStr ''Latte'', Description = JStr ''Hot'',
                Price = JNum (Finite 450), Available = JBool True, CreatedAt = 3\<rparr>],
       calls = [RunTransaction (Delete ''nope'')]\<rparr>)"
  using delete_idempotent
    [of 5 "''nope''"
        "\<lparr>rows = [\<lparr>MenuId = ''u1'', Name = JStr ''Latte'', Description = JStr ''Hot'',
                  Price = JNum (Finite 450), Available = JBool True, CreatedAt = 3\<rparr>],
          calls = []\<rparr>" 6]
  by simp

section \<open>Boundary values\<close>

text \<open>
  C4. A body with non-empty strings for name and description, price 0 and available
  false passes the test of both handlers: the answer is never 400, and the transaction
  carrying exactly these values is sent to the store.
\<close>

theorem zero_price_and_false_available_accepted:
  assumes "getprop body ''name'' = JStr n" and "n \<noteq> []"
    and "getprop body ''description'' = JStr d" and "d \<noteq> []"
    and "getprop body ''price'' = JNum (Finite 0)"
    and "getprop body ''available'' = JBool False"
  shows "\<not> invalid_input (JStr n) (JStr d) (JNum (Finite 0)) (JBool False)
     \<and> status (fst (post_menu uuid now fate body db)) \<noteq> 400
     \<and> calls (snd (post_menu uuid now fate body db)) =
         calls db @ [RunTransaction (Insert uuid (JStr n) (JStr d) (JNum (Finite 0)) (JBool False))]
     \<and> status (fst (put_menu fate rfate ident body db)) \<noteq> 400
     \<and> (\<exists>later. calls (snd (put_menu fate rfate ident body db)) =
           calls db @ RunTransaction (Update ident (JStr n) (JStr d) (JNum (Finite 0)) (JBool False))
                      # later)"
proof -
  have v: "\<not> invalid_input (JStr n) (JStr d) (JNum (Finite 0)) (JBool False)"
    using assms(2,4) by (simp add: invalid_input_def)
  have p1: "status (fst (post_menu uuid now fate body db)) \<noteq> 400"
    using v assms
    by (cases fate) (simp_all add: post_menu_def runTransactionAsync_def Let_def)
  have p2: "calls (snd (post_menu uuid now fate body db)) =
         calls db @ [RunTransaction (Insert uuid (JStr n) (JStr d) (JNum (Finite 0)) (JBool False))]"
    using v assms
    by (cases fate) (simp_all add: post_menu_def runTransactionAsync_def Let_def)
  have u1: "status (fst (put_menu fate rfate ident body db)) \<noteq> 400"
    using v assms
    by (cases fate; cases rfate)
       (simp_all add: put_menu_def runTransactionAsync_def run_def Let_def split: list.splits)
  have u2: "\<exists>later. calls (snd (put_menu fate rfate ident body db)) =
           calls db @ RunTransaction (Update ident (JStr n) (JStr d) (JNum (Finite 0)) (JBool False))
                      # later"
    using v assms
    by (cases fate; cases rfate)
       (simp_all add: put_menu_def runTransactionAsync_def run_def Let_def split: list.splits)
  show ?thesis using v p1 p2 u1 u2 by blast
qed


theorem zero_price_and_false_available_accepted_witness:
  "\<not> invalid_input (JStr ''Water'') (JStr ''Tap'') (JNum (Finite 0)) (JBool False)
   \<and> status (fst (post_menu ''u2'' ''2024-01-01T00:00:00.000Z'' (Commits 4)
        [(''name'', JStr ''Water''), (''description'', JStr ''Tap''),
         (''price'', JNum (Finite 0)), (''available'', JBool False)]
        \<lparr>rows = [], calls = []\<rparr>)) \<noteq> 400
   \<and> calls (snd (post_menu ''u2'' ''2024-01-01T00:00:00.000Z'' (Commits 4)
        [(''name'', JStr ''Water''), (''description'', JStr ''Tap''),
         (''price'', JNum (Finite 0)), (''available'', JBool False)]
        \<lparr>rows = [], calls = []\<rparr>)) =
       [RunTransaction (Insert ''u2'' (JStr ''Water'') (JStr ''Tap'') (JNum (Finite 0))
          (JBool False))]"
  using zero_price_and_false_available_accepted
    [where body = "[(''name'', JStr ''Water''), (''description'', JStr ''Tap''),
                    (''price'', JNum (Finite 0)), (''available'', JBool False)]"
       and n = "''Water''" and d = "''Tap''" and uuid = "''u2''"
       and now = "''2024-01-01T00:00:00.000Z''" and fate = "Commits 4"
       and db = "\<lparr>rows = [], calls = []\<rparr>"]
  by (simp add: getprop_def)

section \<open>List\<close>

lemma select_all_sorted:
  "sorted_wrt (\<lambda>a b. CreatedAt b \<le> CreatedAt a) (select SelectAll rs)"
proof -
  have "sorted (map CreatedAt (sort_key CreatedAt rs))"
    by (rule sorted_sort_key)
  then have "sorted_wrt (\<lambda>a b. CreatedAt a \<le> CreatedAt b) (sort_key CreatedAt rs)"
    by (simp add: sorted_wrt_map)
  then show ?thesis
    by (simp add: sorted_wrt_rev)
qed

lemma select_all_mset: "mset (select SelectAll rs) = mset rs"
  by simp

text \<open>
  C5. When the read succeeds, GET /menu answers 200 with an array holding every row of
  the table exactly once, newest creation time first, each row rendered with the fixed
  renaming MenuId to menuId, Name to name, Description to description, Price to price,
  Available to available, CreatedAt to createdAt.
\<close>

theorem list_newest_first:
  "(\<exists>rs. get_menu ReadReturns db =
           (\<lparr>status = 200, json = JArr (map menu_item rs)\<rparr>,
            db\<lparr>calls := calls db @ [Run SelectAll]\<rparr>)
        \<and> mset rs = mset (rows db)
        \<and> sorted_wrt (\<lambda>a b. CreatedAt b \<le> CreatedAt a) rs)
   \<and> (\<forall>r. menu_item r =
          JObj [(''menuId'', JStr (MenuId r)), (''name'', Name r),
                (''description'', Description r), (''price'', Price r),
                (''available'', Available r), (''createdAt'', JDate (CreatedAt r))])"
proof -
  have "get_menu ReadReturns db =
          (\<lparr>status = 200, json = JArr (map menu_item (select SelectAll (rows db)))\<rparr>,
           db\<lparr>calls := calls db @ [Run SelectAll]\<rparr>)"
    by (simp add: get_menu_def run_def)
  then have "\<exists>rs. get_menu ReadReturns db =
           (\<lparr>status = 200, json = JArr (map menu_item rs)\<rparr>,
            db\<lparr>calls := calls db @ [Run SelectAll]\<rparr>)
        \<and> mset rs = mset (rows db)
        \<and> sorted_wrt (\<lambda>a b. CreatedAt b \<le> CreatedAt a) rs"
    using select_all_mset [of "rows db"] select_all_sorted [of "rows db"] by blast
  then show ?thesis
    by (simp add: menu_item_def)
qed

theorem list_newest_first_witness:
  "get_menu ReadReturns
     \<lparr>rows = [\<lparr>MenuId = ''a'', Name = JStr ''Latte'', Description = JStr ''Hot'',
               Price = JNum (Finite 450), Available = JBool True, CreatedAt = 1\<rparr>,
              \<lparr>MenuId = ''b'', Name = JStr ''Mocha'', Description = JStr ''Sweet'',
               Price = JNum (Finite 500), Available = JBool True, CreatedAt = 2\<rparr>,
              \<lparr>MenuId = ''c'', Name = JStr ''Tea'', Description = JStr ''Green'',
               Price = JNum (Finite 300), Available = JBool False, CreatedAt = 3\<rparr>],
      calls = []\<rparr> =
   (\<lparr>status = 200,
     json = JArr
       [JObj [(''menuId'', JStr ''c''), (''name'', JStr ''Tea''),
              (''description'', JStr ''Green''), (''price'', JNum (Finite 300)),
              (''available'', JBool False), (''createdAt'', JDate 3)],
        JObj [(''menuId'', JStr ''b''), (''name'', JStr ''Mocha''),
              (''description'', JStr ''Sweet''), (''price'', JNum (Finite 500)),
              (''available'', JBool True), (''createdAt'', JDate 2)],
        JObj [(''menuId'', JStr ''a''), (''name'', JStr ''Latte''),
              (''description'', JStr ''Hot''), (''price'', JNum (Finite 450)),
              (''available'', JBool True), (''createdAt'', JDate 1)]]\<rparr>,
    \<lparr>rows = [\<lparr>MenuId = ''a'', Name = JStr ''Latte'', Description = JStr ''Hot'',
               Price = JNum (Finite 450), Available = JBool True, CreatedAt = 1\<rparr>,
              \<lparr>MenuId = ''b'', Name = JStr ''Mocha'', Description = JStr ''Sweet'',
               Price = JNum (Finite 500), Available = JBool True, CreatedAt = 2\<rparr>,
              \<lparr>MenuId = ''c'', Name = JStr ''Tea'', Description = JStr ''Green'',
               Price = JNum (Finite 300), Available = JBool False, CreatedAt = 3\<rparr>],
      calls = [Run SelectAll]\<rparr>)"
  using list_newest_first
    [of "\<lparr>rows = [\<lparr>MenuId = ''a'', Name = JStr ''Latte'', Description = JStr ''Hot'',
               Price = JNum (Finite 450), Available = JBool True, CreatedAt = 1\<rparr>,
              \<lparr>MenuId = ''b'', Name = JStr ''Mocha'', Description = JStr ''Sweet'',
               Price = JNum (Finite 500), Available = JBool True, CreatedAt = 2\<rparr>,
              \<lparr>MenuId = ''c'', Name = JStr ''Tea'', Description = JStr ''Green'',
               Price = JNum (Finite 300), Available = JBool False, CreatedAt = 3\<rparr>],
      calls = []\<rparr>"]
  by (simp add: get_menu_def run_def menu_item_def sort_key_def)

section \<open>Create\<close>

lemma stringify_exact:
  "json_exact v \<Longrightarrow> stringify v = v"
  "json_exact_elements vs \<Longrightarrow> stringify_elements vs = vs"
  "json_exact_properties kvs \<Longrightarrow> stringify_properties kvs = kvs"
proof (induction v and vs and kvs rule: stringify_stringify_elements_stringify_properties.induct)
  case (12 v vs)
  then show ?case by (cases "v = JUndefined") auto
next
  case (14 kv kvs)
  then show ?case by (cases "snd kv = JUndefined") auto
qed simp_all

lemma truthy_defined: "truthy v \<Longrightarrow> v \<noteq> JUndefined"
  by auto

lemma not_eq_null_defined: "\<not> eq_null v \<Longrightarrow> v \<noteq> JUndefined"
  by auto

lemma post_menu_committed:
  assumes "\<not> invalid_input (getprop body ''name'') (getprop body ''description'')
             (getprop body ''price'') (getprop body ''available'')"
  shows "post_menu uuid now (Commits ts) body db =
           (\<lparr>status = 201,
             json = JObj [(''menuId'', JStr uuid),
                          (''name'', stringify (getprop body ''name'')),
                          (''description'', stringify (getprop body ''description'')),
                          (''price'', stringify (getprop body ''price'')),
                          (''available'', stringify (getprop body ''available'')),
                          (''createdAt'', JStr now)]\<rparr>,
            \<lparr>rows = rows db @
                 [\<lparr>MenuId = uuid, Name = getprop body ''name'',
                   Description = getprop body ''description'',
                   Price = getprop body ''price'',
                   Available = getprop body ''available'', CreatedAt = ts\<rparr>],
             calls = calls db @
                 [RunTransaction (Insert uuid (getprop body ''name'')
                    (getprop body ''description'') (getprop body ''price'')
                    (getprop body ''available''))]\<rparr>)"
proof -
  have d: "getprop body ''name'' \<noteq> JUndefined" "getprop body ''description'' \<noteq> JUndefined"
    "getprop body ''price'' \<noteq> JUndefined" "getprop body ''available'' \<noteq> JUndefined"
    using assms truthy_defined not_eq_null_defined
    by (auto simp: invalid_input_def)
  show ?thesis
    using assms d by (simp add: post_menu_def runTransactionAsync_def Let_def)
qed

text \<open>
  C6, as amended. A valid POST /menu whose insert commits is answered with 201 and an
  item carrying the freshly minted identifier (under the key \<^verbatim>\<open>menuId\<close>), the four
  submitted values as JSON text writes them, and as createdAt the application's clock
  reading at the time the response is built. A submitted value that JSON text carries
  unchanged (no number that is not finite in it) is returned as submitted. The row
  stored carries the commit timestamp instead, and the response is the same whatever
  that commit timestamp is.
\<close>

theorem create_returns_minted_id_and_clock_time:
  assumes "\<not> invalid_input (getprop body ''name'') (getprop body ''description'')
             (getprop body ''price'') (getprop body ''available'')"
  shows "post_menu uuid now (Commits ts) body db =
           (\<lparr>status = 201,
             json = JObj [(''menuId'', JStr uuid),
                          (''name'', stringify (getprop body ''name'')),
                          (''description'', stringify (getprop body ''description'')),
                          (''price'', stringify (getprop body ''price'')),
                          (''available'', stringify (getprop body ''available'')),
                          (''createdAt'', JStr now)]\<rparr>,
            \<lparr>rows = rows db @
                 [\<lparr>MenuId = uuid, Name = getprop body ''name'',
                   Description = getprop body ''description'',
                   Price = getprop body ''price'',
                   Available = getprop body ''available'', CreatedAt = ts\<rparr>],
             calls = calls db @
                 [RunTransaction (Insert uuid (getprop body ''name'')
                    (getprop body ''description'') (getprop body ''price'')
                    (getprop body ''available''))]\<rparr>)
         \<and> (json_exact (getprop body ''name'') \<and> json_exact (getprop body ''description'')
              \<and> json_exact (getprop body ''price'') \<and> json_exact (getprop body ''available'')
             \<longrightarrow> json (fst (post_menu uuid now (Commits ts) body db)) =
                   JObj [(''menuId'', JStr uuid),
                         (''name'', getprop body ''name''),
                         (''description'', getprop body ''description''),
                         (''price'', getprop body ''price''),
                         (''available'', getprop body ''available''),
                         (''createdAt'', JStr now)])
         \<and> fst (post_menu uuid now (Commits ts) body db) =
           fst (post_menu uuid now (Commits ts') body db)"
proof -
  note eq = post_menu_committed [OF assms]
  have echo: "json (fst (post_menu uuid now (Commits ts) body db)) =
                   JObj [(''menuId'', JStr uuid),
                         (''name'', getprop body ''name''),
                         (''description'', getprop body ''description''),
                         (''price'', getprop body ''price''),
                         (''available'', getprop body ''available''),
                         (''createdAt'', JStr now)]"
    if "json_exact (getprop body ''name'')" "json_exact (getprop body ''description'')"
      "json_exact (getprop body ''price'')" "json_exact (getprop body ''available'')"
    using that by (simp add: eq stringify_exact(1))
  have same: "fst (post_menu uuid now (Commits ts) body db) =
           fst (post_menu uuid now (Commits ts') body db)"
    by (simp add: eq)
  show ?thesis
    using eq [of uuid now ts db] echo same by blast
qed

theorem create_returns_minted_id_and_clock_time_witness:
  "post_menu ''u3'' ''2024-05-01T10:00:00.000Z'' (Commits 77)
     [(''name'', JStr ''Latte''), (''description'', JStr ''Hot milk coffee''),
      (''price'', JNum (Finite 450)), (''available'', JBool True)]
     \<lparr>rows = [], calls = []\<rparr> =
   (\<lparr>status = 201,
     json = JObj [(''menuId'', JStr ''u3''), (''name'', JStr ''Latte''),
                  (''description'', JStr ''Hot milk coffee''),
                  (''price'', JNum (Finite 450)), (''available'', JBool True),
                  (''createdAt'', JStr ''2024-05-01T10:00:00.000Z'')]\<rparr>,
    \<lparr>rows = [\<lparr>MenuId = ''u3'', Name = JStr ''Latte'',
              Description = JStr ''Hot milk coffee'', Price = JNum (Finite 450),
              Available = JBool True, CreatedAt = 77\<rparr>],
     calls = [RunTransaction (Insert ''u3'' (JStr ''Latte'') (JStr ''Hot milk coffee'')
                (JNum (Finite 450)) (JBool True))]\<rparr>)
   \<and> json_exact (JStr ''Latte'') \<and> json_exact (JStr ''Hot milk coffee'')
   \<and> json_exact (JNum (Finite 450)) \<and> json_exact (JBool True)"
  using create_returns_minted_id_and_clock_time
    [where body = "[(''name'', JStr ''Latte''), (''description'', JStr ''Hot milk coffee''),
                    (''price'', JNum (Finite 450)), (''available'', JBool True)]"
       and uuid = "''u3''" and now = "''2024-05-01T10:00:00.000Z''" and ts = 77
       and ts' = 78 and db = "\<lparr>rows = [], calls = []\<rparr>"]
  by (simp add: getprop_def invalid_input_def)

text \<open>
  That the returned values are always the submitted ones fails for a price beyond the
  range of a double: the body text \<^verbatim>\<open>"price": 1e400\<close> is parsed as Infinity, which is
  not null, so the request is valid and the insert is sent with it; the 201 body carries
  price null.
\<close>

theorem create_echo_counterexample:
  "\<not> invalid_input (JStr ''Latte'') (JStr ''Hot milk coffee'') (JNum (Infinity True))
       (JBool True)
   \<and> fst (post_menu ''u3'' ''2024-05-01T10:00:00.000Z'' (Commits 77)
       [(''name'', JStr ''Latte''), (''description'', JStr ''Hot milk coffee''),
        (''price'', JNum (Infinity True)), (''available'', JBool True)]
       \<lparr>rows = [], calls = []\<rparr>) =
     \<lparr>status = 201,
      json = JObj [(''menuId'', JStr ''u3''), (''name'', JStr ''Latte''),
                   (''description'', JStr ''Hot milk coffee''),
                   (''price'', JNull), (''available'', JBool True),
                   (''createdAt'', JStr ''2024-05-01T10:00:00.000Z'')]\<rparr>
   \<and> json (fst (post_menu ''u3'' ''2024-05-01T10:00:00.000Z'' (Commits 77)
       [(''name'', JStr ''Latte''), (''description'', JStr ''Hot milk coffee''),
        (''price'', JNum (Infinity True)), (''available'', JBool True)]
       \<lparr>rows = [], calls = []\<rparr>)) \<noteq>
     JObj [(''menuId'', JStr ''u3''), (''name'', JStr ''Latte''),
           (''description'', JStr ''Hot milk coffee''),
           (''price'', JNum (Infinity True)), (''available'', JBool True),
           (''createdAt'', JStr ''2024-05-01T10:00:00.000Z'')]"
  by (simp add: post_menu_def runTransactionAsync_def getprop_def invalid_input_def Let_def)


section \<open>Update\<close>

lemma put_menu_rows:
  "rows (snd (put_menu fate rfate ident body db)) =
     (if \<not> invalid_input (getprop body ''name'') (getprop body ''description'')
              (getprop body ''price'') (getprop body ''available'')
         \<and> (\<exists>ts. fate = Commits ts)
      then map (\<lambda>r. if MenuId r = ident
                    then r\<lparr>Name := getprop body ''name'',
                           Description := getprop body ''description'',
                           Price := getprop body ''price'',
                           Available := getprop body ''available''\<rparr>
                    else r) (rows db)
      else rows db)"
  by (cases fate; cases rfate)
     (simp_all add: put_menu_def runTransactionAsync_def run_def Let_def split: list.splits)

text \<open>
  C7. Whatever a PUT /menu/:id does, the table keeps its length and every row keeps its
  id and its creation time; a row with another id is untouched; a row is either
  untouched or differs only in name, description, price and available, which then hold
  the submitted values; and when the body is valid and the transaction commits, the rows
  carrying the id are the ones so changed.
\<close>

theorem update_frame:
  "length (rows (snd (put_menu fate rfate ident body db))) = length (rows db)
   \<and> (\<forall>i < length (rows db).
        MenuId (rows (snd (put_menu fate rfate ident body db)) ! i) = MenuId (rows db ! i)
      \<and> CreatedAt (rows (snd (put_menu fate rfate ident body db)) ! i) = CreatedAt (rows db ! i)
      \<and> (MenuId (rows db ! i) \<noteq> ident
           \<longrightarrow> rows (snd (put_menu fate rfate ident body db)) ! i = rows db ! i)
      \<and> (rows (snd (put_menu fate rfate ident body db)) ! i = rows db ! i
         \<or> rows (snd (put_menu fate rfate ident body db)) ! i =
             (rows db ! i)\<lparr>Name := getprop body ''name'',
                            Description := getprop body ''description'',
                            Price := getprop body ''price'',
                            Available := getprop body ''available''\<rparr>)
      \<and> (\<not> invalid_input (getprop body ''name'') (getprop body ''description'')
              (getprop body ''price'') (getprop body ''available'')
           \<longrightarrow> fate = Commits ts \<longrightarrow> MenuId (rows db ! i) = ident
           \<longrightarrow> rows (snd (put_menu fate rfate ident body db)) ! i =
                 (rows db ! i)\<lparr>Name := getprop body ''name'',
                                Description := getprop body ''description'',
                                Price := getprop body ''price'',
                                Available := getprop body ''available''\<rparr>))"
  by (simp add: put_menu_rows)

theorem update_frame_witness:
  "rows (snd (put_menu (Commits 9) ReadReturns ''b''
       [(''name'', JStr ''Mocha''), (''description'', JStr ''Sweeter''),
        (''price'', JNum (Finite 520)), (''available'', JBool False)]
       \<lparr>rows = [\<lparr>MenuId = ''a'', Name = JStr ''Latte'', Description = JStr ''Hot'',
                 Price = JNum (Finite 450), Available = JBool True, CreatedAt = 1\<rparr>,
                \<lparr>MenuId = ''b'', Name = JStr ''Mocha'', Description = JStr ''Sweet'',
                 Price = JNum (Finite 500), Available = JBool True, CreatedAt = 2\<rparr>],
        calls = []\<rparr>)) =
     [\<lparr>MenuId = ''a'', Name = JStr ''Latte'', Description = JStr ''Hot'',
       Price = JNum (Finite 450), Available = JBool True, CreatedAt = 1\<rparr>,
      \<lparr>MenuId = ''b'', Name = JStr ''Mocha'', Description = JStr ''Sweeter'',
       Price = JNum (Finite 520), Available = JBool False, CreatedAt = 2\<rparr>]"
proof -
  let ?body = "[(''name'', JStr ''Mocha''), (''description'', JStr ''Sweeter''),
        (''price'', JNum (Finite 520)), (''available'', JBool False)]"
  let ?db = "\<lparr>rows = [\<lparr>MenuId = ''a'', Name = JStr ''Latte'', Description = JStr ''Hot'',
                 Price = JNum (Finite 450), Available = JBool True, CreatedAt = 1\<rparr>,
                \<lparr>MenuId = ''b'', Name = JStr ''Mocha'', Description = JStr ''Sweet'',
                 Price = JNum (Finite 500), Available = JBool True, CreatedAt = 2\<rparr>],
        calls = []\<rparr>"
  let ?rs = "rows (snd (put_menu (Commits 9) ReadReturns ''b'' ?body ?db))"
  note f = update_frame [where fate = "Commits 9" and rfate = ReadReturns and ident = "''b''"
      and body = ?body and db = ?db and ts = 9]
  have len: "length ?rs = 2"
    using f by simp
  have r0: "?rs ! 0 = \<lparr>MenuId = ''a'', Name = JStr ''Latte'', Description = JStr ''Hot'',
       Price = JNum (Finite 450), Available = JBool True, CreatedAt = 1\<rparr>"
    using f by simp
  have r1: "?rs ! 1 = \<lparr>MenuId = ''b'', Name = JStr ''Mocha'', Description = JStr ''Sweeter'',
       Price = JNum (Finite 520), Available = JBool False, CreatedAt = 2\<rparr>"
    using f by (simp add: getprop_def invalid_input_def)
  show ?thesis
    using len r0 r1 by (simp add: list_eq_iff_nth_eq less_Suc_eq numeral_2_eq_2)
qed

section \<open>Store failures\<close>

text \<open>
  C8. When the store throws an error with message \<open>m\<close>, every handler answers 500 with
  a body of exactly the two fields error and details, details being \<open>m\<close>: a failed
  transaction of create, update or delete, a failed list read, and a failed read after
  an update. After a failed transaction the rows are what they were before.
\<close>

theorem store_failure_is_500:
  assumes "fate = RunUpdateThrows m \<or> fate = CommitThrows m"
  shows "(\<not> invalid_input (getprop body ''name'') (getprop body ''description'')
              (getprop body ''price'') (getprop body ''available'')
          \<longrightarrow> post_menu uuid now fate body db =
                (\<lparr>status = 500,
                  json = JObj [(''error'', JStr ''Failed to create menu item''),
                               (''details'', JStr m)]\<rparr>,
                 \<lparr>rows = rows db,
                  calls = calls db @
                    [RunTransaction (Insert uuid (getprop body ''name'')
                       (getprop body ''description'') (getprop body ''price'')
                       (getprop body ''available''))]\<rparr>)
            \<and> put_menu fate rfate ident body db =
                (\<lparr>status = 500,
                  json = JObj [(''error'', JStr ''Failed to update menu item''),
                               (''details'', JStr m)]\<rparr>,
                 \<lparr>rows = rows db,
                  calls = calls db @
                    [RunTransaction (Update ident (getprop body ''name'')
                       (getprop body ''description'') (getprop body ''price'')
                       (getprop body ''available''))]\<rparr>)
            \<and> fst (put_menu (Commits ts) (ReadThrows m) ident body db) =
                \<lparr>status = 500,
                 json = JObj [(''error'', JStr ''Failed to update menu item''),
                              (''details'', JStr m)]\<rparr>)
         \<and> delete_menu fate ident db =
             (\<lparr>status = 500,
               json = JObj [(''error'', JStr ''Failed to delete menu item''),
                            (''details'', JStr m)]\<rparr>,
              \<lparr>rows = rows db, calls = calls db @ [RunTransaction (Delete ident)]\<rparr>)
         \<and> get_menu (ReadThrows m) db =
             (\<lparr>status = 500,
               json = JObj [(''error'', JStr ''Failed to fetch menu items''),
                            (''details'', JStr m)]\<rparr>,
              \<lparr>rows = rows db, calls = calls db @ [Run SelectAll]\<rparr>)"
proof -
  have del: "delete_menu fate ident db =
             (\<lparr>status = 500,
               json = JObj [(''error'', JStr ''Failed to delete menu item''),
                            (''details'', JStr m)]\<rparr>,
              \<lparr>rows = rows db, calls = calls db @ [RunTransaction (Delete ident)]\<rparr>)"
    using assms by (auto simp: delete_menu_def runTransactionAsync_def)
  have get: "get_menu (ReadThrows m) db =
             (\<lparr>status = 500,
               json = JObj [(''error'', JStr ''Failed to fetch menu items''),
                            (''details'', JStr m)]\<rparr>,
              \<lparr>rows = rows db, calls = calls db @ [Run SelectAll]\<rparr>)"
    by (simp add: get_menu_def run_def)
  have post: "post_menu uuid now fate body db =
                (\<lparr>status = 500,
                  json = JObj [(''error'', JStr ''Failed to create menu item''),
                               (''details'', JStr m)]\<rparr>,
                 \<lparr>rows = rows db,
                  calls = calls db @
                    [RunTransaction (Insert uuid (getprop body ''name'')
                       (getprop body ''description'') (getprop body ''price'')
                       (getprop body ''available''))]\<rparr>)"
    if "\<not> invalid_input (getprop body ''name'') (getprop body ''description'')
              (getprop body ''price'') (getprop body ''available'')"
    using assms that by (auto simp: post_menu_def runTransactionAsync_def Let_def)
  have put: "put_menu fate rfate ident body db =
                (\<lparr>status = 500,
                  json = JObj [(''error'', JStr ''Failed to update menu item''),
                               (''details'', JStr m)]\<rparr>,
                 \<lparr>rows = rows db,
                  calls = calls db @
                    [RunTransaction (Update ident (getprop body ''name'')
                       (getprop body ''description'') (getprop body ''price'')
                       (getprop body ''available''))]\<rparr>)"
    if "\<not> invalid_input (getprop body ''name'') (getprop body ''description'')
              (getprop body ''price'') (getprop body ''available'')"
    using assms that by (auto simp: put_menu_def runTransactionAsync_def Let_def)
  have rd: "fst (put_menu (Commits ts) (ReadThrows m) ident body db) =
                \<lparr>status = 500,
                 json = JObj [(''error'', JStr ''Failed to update menu item''),
                              (''details'', JStr m)]\<rparr>"
    if "\<not> invalid_input (getprop body ''name'') (getprop body ''description'')
              (getprop body ''price'') (getprop body ''available'')"
    using that by (simp add: put_menu_def runTransactionAsync_def run_def Let_def)
  show ?thesis
    using del get post put rd by blast
qed


theorem store_failure_is_500_witness:
  "post_menu ''u4'' ''2024-05-01T10:00:00.000Z'' (CommitThrows ''DEADLINE_EXCEEDED'')
     [(''name'', JStr ''Latte''), (''description'', JStr ''Hot milk coffee''),
      (''price'', JNum (Finite 450)), (''available'', JBool True)]
     \<lparr>rows = [\<lparr>MenuId = ''a'', Name = JStr ''Tea'', Description = JStr ''Green'',
               Price = JNum (Finite 300), Available = JBool True, CreatedAt = 1\<rparr>],
      calls = []\<rparr> =
   (\<lparr>status = 500,
     json = JObj [(''error'', JStr ''Failed to create menu item''),
                  (''details'', JStr ''DEADLINE_EXCEEDED'')]\<rparr>,
    \<lparr>rows = [\<lparr>MenuId = ''a'', Name = JStr ''Tea'', Description = JStr ''Green'',
              Price = JNum (Finite 300), Available = JBool True, CreatedAt = 1\<rparr>],
     calls = [RunTransaction (Insert ''u4'' (JStr ''Latte'') (JStr ''Hot milk coffee'')
                (JNum (Finite 450)) (JBool True))]\<rparr>)
   \<and> delete_menu (CommitThrows ''DEADLINE_EXCEEDED'') ''a''
     \<lparr>rows = [\<lparr>MenuId = ''a'', Name = JStr ''Tea'', Description = JStr ''Green'',
               Price = JNum (Finite 300), Available = JBool True, CreatedAt = 1\<rparr>],
      calls = []\<rparr> =
   (\<lparr>status = 500,
     json = JObj [(''error'', JStr ''Failed to delete menu item''),
                  (''details'', JStr ''DEADLINE_EXCEEDED'')]\<rparr>,
    \<lparr>rows = [\<lparr>MenuId = ''a'', Name = JStr ''Tea'', Description = JStr ''Green'',
              Price = JNum (Finite 300), Available = JBool True, CreatedAt = 1\<rparr>],
     calls = [RunTransaction (Delete ''a'')]\<rparr>)"
  using store_failure_is_500
    [where fate = "CommitThrows ''DEADLINE_EXCEEDED''" and m = "''DEADLINE_EXCEEDED''"
       and body = "[(''name'', JStr ''Latte''), (''description'', JStr ''Hot milk coffee''),
                    (''price'', JNum (Finite 450)), (''available'', JBool True)]"
       and uuid = "''u4''" and now = "''2024-05-01T10:00:00.000Z''" and ident = "''a''"
       and rfate = ReadReturns and ts = 0
       and db = "\<lparr>rows = [\<lparr>MenuId = ''a'', Name = JStr ''Tea'', Description = JStr ''Green'',
               Price = JNum (Finite 300), Available = JBool True, CreatedAt = 1\<rparr>],
                  calls = []\<rparr>"]
  by (simp add: getprop_def invalid_input_def)

section \<open>Falsy names and descriptions\<close>

text \<open>
  C9. A POST /menu or PUT /menu/:id whose name or description is falsy is answered with
  400 and the database handle is returned as it was, with no call made on it. The empty
  string, 0, false, NaN, null and undefined are all falsy.
\<close>

theorem falsy_name_or_description_rejected:
  assumes "\<not> truthy (getprop body ''name'') \<or> \<not> truthy (getprop body ''description'')"
  shows "post_menu uuid now fate body db =
           (\<lparr>status = 400, json = JObj [(''error'', JStr ''Invalid input data'')]\<rparr>, db)
         \<and> put_menu fate rfate ident body db =
           (\<lparr>status = 400, json = JObj [(''error'', JStr ''Invalid input data'')]\<rparr>, db)
         \<and> \<not> truthy (JStr []) \<and> \<not> truthy (JNum (Finite 0)) \<and> \<not> truthy (JBool False)
         \<and> \<not> truthy (JNum NaN) \<and> \<not> truthy JNull \<and> \<not> truthy JUndefined"
  using assms by (auto simp: post_menu_def put_menu_def invalid_input_def)

theorem falsy_name_or_description_rejected_witness:
  "post_menu ''u5'' ''2024-05-01T10:00:00.000Z'' (Commits 3)
     [(''name'', JStr []), (''description'', JStr ''Hot milk coffee''),
      (''price'', JNum (Finite 450)), (''available'', JBool True)]
     \<lparr>rows = [], calls = []\<rparr> =
   (\<lparr>status = 400, json = JObj [(''error'', JStr ''Invalid input data'')]\<rparr>,
    \<lparr>rows = [], calls = []\<rparr>)
   \<and> put_menu (Commits 3) ReadReturns ''a''
     [(''name'', JStr []), (''description'', JStr ''Hot milk coffee''),
      (''price'', JNum (Finite 450)), (''available'', JBool True)]
     \<lparr>rows = [], calls = []\<rparr> =
   (\<lparr>status = 400, json = JObj [(''error'', JStr ''Invalid input data'')]\<rparr>,
    \<lparr>rows = [], calls = []\<rparr>)"
  using falsy_name_or_description_rejected
    [where body = "[(''name'', JStr []), (''description'', JStr ''Hot milk coffee''),
                    (''price'', JNum (Finite 450)), (''available'', JBool True)]"
       and uuid = "''u5''" and now = "''2024-05-01T10:00:00.000Z''" and fate = "Commits 3"
       and rfate = ReadReturns and ident = "''a''" and db = "\<lparr>rows = [], calls = []\<rparr>"]
  by (simp add: getprop_def)

section \<open>A failed read after a committed update\<close>

lemma map_changes:
  assumes "r \<in> set rs" and "f r \<noteq> r"
  shows "map f rs \<noteq> rs"
proof
  assume "map f rs = rs"
  then have "map f rs = map (\<lambda>x. x) rs" by simp
  then have "f r = r" using assms(1) by (simp only: map_eq_conv)
  with assms(2) show False by simp
qed

text \<open>
  C10. On PUT /menu/:id with a valid body, when the transaction commits and the read
  that follows throws, the answer is 500 although the rows are the updated ones. When
  some row with that id held a different value in one of the four columns, the rows
  after this 500 differ from the rows before.
\<close>

theorem update_500_after_commit:
  assumes "\<not> invalid_input (getprop body ''name'') (getprop body ''description'')
             (getprop body ''price'') (getprop body ''available'')"
  shows "put_menu (Commits ts) (ReadThrows m) ident body db =
           (\<lparr>status = 500,
             json = JObj [(''error'', JStr ''Failed to update menu item''),
                          (''details'', JStr m)]\<rparr>,
            \<lparr>rows = runUpdate ts (Update ident (getprop body ''name'')
                      (getprop body ''description'') (getprop body ''price'')
                      (getprop body ''available'')) (rows db),
             calls = calls db @
               [RunTransaction (Update ident (getprop body ''name'')
                  (getprop body ''description'') (getprop body ''price'')
                  (getprop body ''available'')),
                Run (SelectById ident)]\<rparr>)
         \<and> ((\<exists>r \<in> set (rows db). MenuId r = ident
               \<and> (Name r \<noteq> getprop body ''name'' \<or> Description r \<noteq> getprop body ''description''
                  \<or> Price r \<noteq> getprop body ''price'' \<or> Available r \<noteq> getprop body ''available''))
             \<longrightarrow> rows (snd (put_menu (Commits ts) (ReadThrows m) ident body db)) \<noteq> rows db)"
proof -
  let ?f = "\<lambda>r. if MenuId r = ident
                then r\<lparr>Name := getprop body ''name'',
                       Description := getprop body ''description'',
                       Price := getprop body ''price'',
                       Available := getprop body ''available''\<rparr>
                else r"
  have eq: "put_menu (Commits ts) (ReadThrows m) ident body db =
           (\<lparr>status = 500,
             json = JObj [(''error'', JStr ''Failed to update menu item''),
                          (''details'', JStr m)]\<rparr>,
            \<lparr>rows = runUpdate ts (Update ident (getprop body ''name'')
                      (getprop body ''description'') (getprop body ''price'')
                      (getprop body ''available'')) (rows db),
             calls = calls db @
               [RunTransaction (Update ident (getprop body ''name'')
                  (getprop body ''description'') (getprop body ''price'')
                  (getprop body ''available'')),
                Run (SelectById ident)]\<rparr>)"
    using assms by (simp add: put_menu_def runTransactionAsync_def run_def Let_def)
  have ch: "rows (snd (put_menu (Commits ts) (ReadThrows m) ident body db)) \<noteq> rows db"
    if r: "r \<in> set (rows db)" "MenuId r = ident"
      and d: "Name r \<noteq> getprop body ''name'' \<or> Description r \<noteq> getprop body ''description''
                  \<or> Price r \<noteq> getprop body ''price'' \<or> Available r \<noteq> getprop body ''available''"
    for r
  proof -
    have "?f r \<noteq> r"
    proof
      assume "?f r = r"
      then have "Name (?f r) = Name r" "Description (?f r) = Description r"
        "Price (?f r) = Price r" "Available (?f r) = Available r"
        by simp_all
      with r(2) d show False by simp
    qed
    then have "map ?f (rows db) \<noteq> rows db"
      using r(1) by (rule map_changes [rotated])
    then show ?thesis by (simp add: eq)
  qed
  show ?thesis using eq ch by blast
qed

theorem update_500_after_commit_witness:
  "put_menu (Commits 9) (ReadThrows ''UNAVAILABLE'') ''b''
     [(''name'', JStr ''Mocha''), (''description'', JStr ''Sweeter''),
      (''price'', JNum (Finite 520)), (''available'', JBool False)]
     \<lparr>rows = [\<lparr>MenuId = ''b'', Name = JStr ''Mocha'', Description = JStr ''Sweet'',
               Price = JNum (Finite 500), Available = JBool True, CreatedAt = 2\<rparr>],
      calls = []\<rparr> =
   (\<lparr>status = 500,
     json = JObj [(''error'', JStr ''Failed to update menu item''),
                  (''details'', JStr ''UNAVAILABLE'')]\<rparr>,
    \<lparr>rows = [\<lparr>MenuId = ''b'', Name = JStr ''Mocha'', Description = JStr ''Sweeter'',
              Price = JNum (Finite 520), Available = JBool False, CreatedAt = 2\<rparr>],
     calls = [RunTransaction (Update ''b'' (JStr ''Mocha'') (JStr ''Sweeter'')
                (JNum (Finite 520)) (JBool False)),
              Run (SelectById ''b'')]\<rparr>)
   \<and> rows (snd (put_menu (Commits 9) (ReadThrows ''UNAVAILABLE'') ''b''
     [(''name'', JStr ''Mocha''), (''description'', JStr ''Sweeter''),
      (''price'', JNum (Finite 520)), (''available'', JBool False)]
     \<lparr>rows = [\<lparr>MenuId = ''b'', Name = JStr ''Mocha'', Description = JStr ''Sweet'',
               Price = JNum (Finite 500), Available = JBool True, CreatedAt = 2\<rparr>],
      calls = []\<rparr>)) \<noteq>
     [\<lparr>MenuId = ''b'', Name = JStr ''Mocha'', Description = JStr ''Sweet'',
       Price = JNum (Finite 500), Available = JBool True, CreatedAt = 2\<rparr>]"
  using update_500_after_commit
    [where body = "[(''name'', JStr ''Mocha''), (''description'', JStr ''Sweeter''),
                    (''price'', JNum (Finite 520)), (''available'', JBool False)]"
       and ts = 9 and m = "''UNAVAILABLE''" and ident = "''b''"
       and db = "\<lparr>rows = [\<lparr>MenuId = ''b'', Name = JStr ''Mocha'', Description = JStr ''Sweet'',
               Price = JNum (Finite 500), Available = JBool True, CreatedAt = 2\<rparr>],
                  calls = []\<rparr>"]
  by (simp add: getprop_def invalid_input_def)

end
